theory Spec2Isabelle
  imports Main "HOL-Library.Word"
begin

section \<open>Go values and run-time failures\<close>

text \<open>
  The run-time panics the modelled code can raise. An unrecovered panic in a goroutine
  terminates the whole process, so a panic is a result of its own, never a returned error.
\<close>

datatype go_panic =
    NilPointerDereference
  | SliceBoundsOutOfRange
  | IndexOutOfRange
  | MakeSliceCapOutOfRange

datatype 'a result = Panic go_panic | Ok 'a

text \<open>
  A value of Go's \<open>error\<close> interface as a storage function returns it: \<open>None\<close> is
  \<open>nil\<close>, \<open>Some msg\<close> an error with that message.
\<close>

type_synonym go_error = "string option"

text \<open>
  A \<open>time.Time\<close> is the instant it denotes, in nanoseconds since the Unix epoch;
  \<open>After\<close>, \<open>Before\<close> and \<open>Equal\<close> compare instants. A \<open>time.Duration\<close>
  is a number of nanoseconds, and \<open>t.Add(-d)\<close> is \<open>t - d\<close>. Go's \<open>int\<close> (lengths,
  limits, indices) is modelled by \<open>int\<close>: slice lengths stay far below \<open>2 ^ 63\<close>, and
  a difference \<open>len - limit\<close> that would wrap is out of the slice's range wrapped or not.
\<close>

type_synonym time = int

type_synonym duration = int

text \<open>
  The slice expression \<open>a[low:]\<close>: in range when \<open>0 \<le> low \<le> len(a)\<close>, a run-time
  panic otherwise.
\<close>

definition slice_from :: "'a list \<Rightarrow> int \<Rightarrow> 'a list result" where
  "slice_from a low =
     (if 0 \<le> low \<and> low \<le> int (length a) then Ok (drop (nat low) a)
      else Panic SliceBoundsOutOfRange)"

text \<open>The index expression \<open>a[i]\<close>.\<close>

definition index_at :: "'a list \<Rightarrow> int \<Rightarrow> 'a result" where
  "index_at a i =
     (if 0 \<le> i \<and> i < int (length a) then Ok (a ! nat i) else Panic IndexOutOfRange)"

section \<open>Data model\<close>

text \<open>
  \<open>processor.ProcessedMetric\<close>. \<open>Value\<close> is a float64, kept as its 64-bit pattern (the
  code only copies it); \<open>RawType\<close> is the int32 enum value.
\<close>

record ProcessedMetric =
  AgentID :: string
  Timestamp :: time
  Name :: string
  Value :: "64 word"
  Labels :: "string \<rightharpoonup> string"
  Type :: string
  RawType :: int
  Payload :: "8 word list"

text \<open>
  \<open>make([]ProcessedMetric, 0, c)\<close>, as \<open>runtime.makeslice\<close> decides it: a
  run-time panic (\<open>makeslice: cap out of range\<close>) when the capacity is negative or the
  size of the backing array, the element size times the capacity, exceeds
  \<open>maxAlloc\<close> (a product that overflows the machine word exceeds it too); the empty
  slice otherwise. The two constants are those of a 64-bit platform such as linux/amd64:
  a \<open>ProcessedMetric\<close> takes 120 bytes (three strings of 16 bytes, a \<open>time.Time\<close>
  of 24, a float64, a map pointer, an int32 padded to 8 and a byte slice of 24), and
  \<open>maxAlloc\<close> is \<open>2 ^ 48\<close>. Below that bound the allocation is taken to succeed:
  running out of memory is outside this model.
\<close>

definition ProcessedMetric_size :: int where
  "ProcessedMetric_size = 120"

definition maxAlloc :: int where
  "maxAlloc = 2 ^ 48"

definition make_slice :: "int \<Rightarrow> ProcessedMetric list result" where
  "make_slice c =
     (if c < 0 \<or> ProcessedMetric_size * c > maxAlloc then Panic MakeSliceCapOutOfRange
      else Ok [])"

text \<open>\<open>storage.MemoryStorage\<close>, without its lock.\<close>

record MemoryStorage =
  metrics :: "ProcessedMetric list"
  maxSize :: int
  expireTime :: duration

text \<open>
  The lines written with \<open>log.Printf\<close>, by their format and arguments. A function that
  logs returns the lines it wrote, in order, beside its outcome, so the lines written
  before a panic are kept.
\<close>

datatype log_event =
    LogSaved int int
  | LogCleaned int
  | LogFailedToProcessMetric string
  | LogFailedToSaveSingleMetric string
  | LogFailedToProcessBatchMetrics string
  | LogFailedToSaveBatchMetrics string
  | LogFailedToUnmarshal

section \<open>Storage\<close>

definition NewMemoryStorage :: "int \<Rightarrow> duration \<Rightarrow> MemoryStorage result" where
  "NewMemoryStorage maxSize' expireTime' =
     (case make_slice maxSize' of
        Panic p \<Rightarrow> Panic p
      | Ok ms \<Rightarrow> Ok \<lparr>metrics = ms, maxSize = maxSize', expireTime = expireTime'\<rparr>)"

definition SaveMetrics ::
  "MemoryStorage \<Rightarrow> ProcessedMetric list \<Rightarrow> log_event list \<times> (MemoryStorage \<times> go_error) result"
where
  "SaveMetrics s new =
     (let appended = metrics s @ new in
      if int (length appended) > maxSize s then
        (let deleteCount = int (length appended) - maxSize s in
         case slice_from appended deleteCount of
           Panic p \<Rightarrow> ([], Panic p)
         | Ok kept \<Rightarrow>
             ([LogSaved (int (length new)) (int (length kept))],
              Ok (s\<lparr>metrics := kept\<rparr>, None)))
      else
        ([LogSaved (int (length new)) (int (length appended))],
         Ok (s\<lparr>metrics := appended\<rparr>, None)))"

text \<open>
  The scan shared by the three filtered queries:
  \<open>for i := len(s.metrics) - 1; i >= 0 && len(result) < limit; i-- { if match(s.metrics[i]) { result = append(result, s.metrics[i]) } }\<close>.
\<close>

function scan_newest_first ::
  "(ProcessedMetric \<Rightarrow> bool) \<Rightarrow> ProcessedMetric list \<Rightarrow> int \<Rightarrow> int \<Rightarrow> ProcessedMetric list
     \<Rightarrow> ProcessedMetric list result"
where
  "scan_newest_first match ms limit i res =
     (if i \<ge> 0 \<and> int (length res) < limit then
        (case index_at ms i of
           Panic p \<Rightarrow> Panic p
         | Ok m \<Rightarrow>
             scan_newest_first match ms limit (i - 1) (if match m then res @ [m] else res))
      else Ok res)"
  by pat_completeness auto
termination
  by (relation "measure (\<lambda>(match, ms, limit, i, res). nat (i + 1))") auto

declare scan_newest_first.simps [simp del]

definition GetMetricsByAgentID ::
  "MemoryStorage \<Rightarrow> string \<Rightarrow> int \<Rightarrow> (ProcessedMetric list \<times> go_error) result"
where
  "GetMetricsByAgentID s agentID limit =
     (case make_slice limit of
        Panic p \<Rightarrow> Panic p
      | Ok res0 \<Rightarrow>
          (case scan_newest_first (\<lambda>m. AgentID m = agentID) (metrics s) limit
                  (int (length (metrics s)) - 1) res0 of
             Panic p \<Rightarrow> Panic p
           | Ok res \<Rightarrow> Ok (res, None)))"

definition GetMetricsByType ::
  "MemoryStorage \<Rightarrow> string \<Rightarrow> int \<Rightarrow> (ProcessedMetric list \<times> go_error) result"
where
  "GetMetricsByType s metricType limit =
     (case make_slice limit of
        Panic p \<Rightarrow> Panic p
      | Ok res0 \<Rightarrow>
          (case scan_newest_first (\<lambda>m. Type m = metricType) (metrics s) limit
                  (int (length (metrics s)) - 1) res0 of
             Panic p \<Rightarrow> Panic p
           | Ok res \<Rightarrow> Ok (res, None)))"

definition GetLatestMetrics ::
  "MemoryStorage \<Rightarrow> int \<Rightarrow> (ProcessedMetric list \<times> go_error) result"
where
  "GetLatestMetrics s limit =
     (let limit' = (if limit > int (length (metrics s)) then int (length (metrics s)) else limit);
          startIdx = int (length (metrics s)) - limit'
      in case slice_from (metrics s) startIdx of
           Panic p \<Rightarrow> Panic p
         | Ok res \<Rightarrow> Ok (res, None))"

definition GetMetricsByTimeRange ::
  "MemoryStorage \<Rightarrow> time \<Rightarrow> time \<Rightarrow> int \<Rightarrow> (ProcessedMetric list \<times> go_error) result"
where
  "GetMetricsByTimeRange s start end' limit =
     (case make_slice limit of
        Panic p \<Rightarrow> Panic p
      | Ok res0 \<Rightarrow>
          (case scan_newest_first
                  (\<lambda>m. (Timestamp m > start \<or> Timestamp m = start) \<and>
                       (Timestamp m < end' \<or> Timestamp m = end'))
                  (metrics s) limit (int (length (metrics s)) - 1) res0 of
             Panic p \<Rightarrow> Panic p
           | Ok res \<Rightarrow> Ok (res, None)))"

text \<open>
  The loop of \<open>CleanExpired\<close>:
  \<open>firstValidIdx := 0; for i, metric := range s.metrics { if metric.Timestamp.After(expiredTime) { firstValidIdx = i; break } }\<close>.
  The second argument is the part of the slice still to visit, the third the index of
  its head. A loop that ends without \<open>break\<close> leaves \<open>firstValidIdx\<close> at its initial 0.
\<close>

fun firstValidIdx :: "time \<Rightarrow> ProcessedMetric list \<Rightarrow> int \<Rightarrow> int" where
  "firstValidIdx expiredTime [] i = 0"
| "firstValidIdx expiredTime (metric # rest) i =
     (if Timestamp metric > expiredTime then i
      else firstValidIdx expiredTime rest (i + 1))"


text \<open>\<open>CleanExpired\<close>, with the reading of the clock (\<open>time.Now()\<close>) as an argument.\<close>

definition CleanExpired :: "time \<Rightarrow> MemoryStorage \<Rightarrow> log_event list \<times> MemoryStorage result" where
  "CleanExpired now s =
     (let expiredTime = now - expireTime s;
          idx = firstValidIdx expiredTime (metrics s) 0
      in if idx > 0 then
           ([LogCleaned idx],
            case slice_from (metrics s) idx of
              Panic p \<Rightarrow> Panic p
            | Ok kept \<Rightarrow> Ok (s\<lparr>metrics := kept\<rparr>))
         else ([], Ok s))"

text \<open>
  A sequence of \<open>SaveMetrics\<close> calls on one store, each on the store the one before
  left; the result is the store after the last call.
\<close>

fun SaveMetrics_sequence :: "MemoryStorage \<Rightarrow> ProcessedMetric list list \<Rightarrow> MemoryStorage result" where
  "SaveMetrics_sequence s [] = Ok s"
| "SaveMetrics_sequence s (new # later) =
     (case SaveMetrics s new of
        (logs, Panic p) \<Rightarrow> Panic p
      | (logs, Ok (s', err)) \<Rightarrow> SaveMetrics_sequence s' later)"

text \<open>
  The \<open>n\<close> most recently inserted entries of an insertion-ordered sequence, in their
  original relative order (all of them when there are fewer).
\<close>

definition most_recent :: "nat \<Rightarrow> 'a list \<Rightarrow> 'a list" where
  "most_recent n xs = drop (length xs - n) xs"

section \<open>Wire messages\<close>

text \<open>
  The generated package \<open>protocol\<close> is not among the sources. Its two messages are
  modelled by the fields the code reads: \<open>Timestamp\<close> is an int64, \<open>Value\<close> a
  float64 (its bit pattern), \<open>Type\<close> a \<open>MetricType\<close>, an int32 enum.
\<close>

record Metric =
  Metric_Name :: string
  Metric_Value :: "64 word"
  Metric_Timestamp :: "64 word"
  Metric_Labels :: "string \<rightharpoonup> string"
  Metric_Type :: int
  Metric_Payload :: "8 word list"

record BatchMetricsRequest =
  Batch_AgentId :: string
  Batch_Timestamp :: "64 word"
  Batch_Metrics :: "Metric list"

text \<open>
  What the code takes from that package and from \<open>proto.Unmarshal\<close>, as parameters:
  the two bounds of the enum, its \<open>String\<close> method, and the decoding of a payload as
  each of the two messages (\<open>None\<close> when \<open>Unmarshal\<close> returns an error).
\<close>

record protocol =
  MetricType_CPU_USAGE :: int
  MetricType_EBPF_RAW :: int
  MetricType_String :: "int \<Rightarrow> string"
  Unmarshal_BatchMetricsRequest :: "8 word list \<Rightarrow> BatchMetricsRequest option"
  Unmarshal_Metric :: "8 word list \<Rightarrow> Metric option"

section \<open>Processor\<close>

datatype MetricError = ErrEmptyMetricName | ErrInvalidTimestamp | ErrInvalidMetricType

fun Error :: "MetricError \<Rightarrow> string" where
  "Error ErrEmptyMetricName = ''metric name is empty''"
| "Error ErrInvalidTimestamp = ''invalid timestamp''"
| "Error ErrInvalidMetricType = ''invalid metric type''"

definition validateMetric :: "protocol \<Rightarrow> Metric \<Rightarrow> MetricError option" where
  "validateMetric p metric =
     (if Metric_Name metric = '''' then Some ErrEmptyMetricName
      else if sint (Metric_Timestamp metric) \<le> 0 then Some ErrInvalidTimestamp
      else if Metric_Type metric < MetricType_CPU_USAGE p \<or>
              Metric_Type metric > MetricType_EBPF_RAW p then Some ErrInvalidMetricType
      else None)"

text \<open>
  \<open>ProcessSingleMetric\<close> returns a pointer and an error: \<open>(nil, err)\<close> or
  \<open>(&processedMetric, nil)\<close>. The timestamp is
  \<open>time.Unix(0, metric.Timestamp*int64(time.Millisecond))\<close>: the product is an int64
  product, which wraps, and \<open>time.Millisecond\<close> is 1000000.
\<close>

definition ProcessSingleMetric ::
  "protocol \<Rightarrow> string \<Rightarrow> Metric \<Rightarrow> ProcessedMetric option \<times> MetricError option"
where
  "ProcessSingleMetric p agentID metric =
     (case validateMetric p metric of
        Some err \<Rightarrow> (None, Some err)
      | None \<Rightarrow>
          (let timestamp = sint (Metric_Timestamp metric * 1000000);
               typeStr = MetricType_String p (Metric_Type metric)
           in (Some \<lparr>AgentID = agentID, Timestamp = timestamp, Name = Metric_Name metric,
                      Value = Metric_Value metric, Labels = Metric_Labels metric,
                      Type = typeStr, RawType = Metric_Type metric,
                      Payload = Metric_Payload metric\<rparr>,
               None)))"

text \<open>
  The loop of \<open>ProcessBatchRequest\<close> over \<open>req.Metrics\<close>, with the slice
  \<open>processedMetrics\<close> and the lines logged so far.
\<close>

fun process_metrics ::
  "protocol \<Rightarrow> string \<Rightarrow> Metric list \<Rightarrow> ProcessedMetric list \<Rightarrow> log_event list
     \<Rightarrow> log_event list \<times> ProcessedMetric list result"
where
  "process_metrics p agentID [] processedMetrics logs = (logs, Ok processedMetrics)"
| "process_metrics p agentID (metric # rest) processedMetrics logs =
     (case ProcessSingleMetric p agentID metric of
        (processedMetric, Some err) \<Rightarrow>
          process_metrics p agentID rest processedMetrics
            (logs @ [LogFailedToProcessMetric (Error err)])
      | (None, None) \<Rightarrow> (logs, Panic NilPointerDereference)
      | (Some pm, None) \<Rightarrow>
          process_metrics p agentID rest (processedMetrics @ [pm]) logs)"

definition ProcessBatchRequest ::
  "protocol \<Rightarrow> BatchMetricsRequest \<Rightarrow> log_event list \<times> (ProcessedMetric list \<times> go_error) result"
where
  "ProcessBatchRequest p req =
     (case process_metrics p (Batch_AgentId req) (Batch_Metrics req) [] [] of
        (logs, Panic q) \<Rightarrow> (logs, Panic q)
      | (logs, Ok processedMetrics) \<Rightarrow> (logs, Ok (processedMetrics, None)))"

section \<open>Stream handler\<close>

text \<open>
  The body of the loop of \<open>handleUniStream\<close> from \<open>proto.Unmarshal\<close> on, for one
  payload \<open>data\<close> read from the stream: the lines logged, and the store with which the
  loop goes on, or the panic that ends the process. Only \<open>log.Printf\<close> lines are
  kept; the prints to standard output are not.
\<close>

definition handle_payload ::
  "protocol \<Rightarrow> MemoryStorage \<Rightarrow> 8 word list \<Rightarrow> log_event list \<times> MemoryStorage result"
where
  "handle_payload p s data =
     (case Unmarshal_BatchMetricsRequest p data of
        None \<Rightarrow>
          (case Unmarshal_Metric p data of
             None \<Rightarrow> ([LogFailedToUnmarshal], Ok s)
           | Some metric \<Rightarrow>
               (case ProcessSingleMetric p '''' metric of (processedMetric, err) \<Rightarrow>
                  (let logs1 = (case err of
                                  Some e \<Rightarrow> [LogFailedToSaveSingleMetric (Error e)]
                                | None \<Rightarrow> [])
                   in case processedMetric of
                        None \<Rightarrow> (logs1, Panic NilPointerDereference)
                      | Some pm \<Rightarrow>
                          (case SaveMetrics s [pm] of
                             (logs2, Panic q) \<Rightarrow> (logs1 @ logs2, Panic q)
                           | (logs2, Ok (s', None)) \<Rightarrow> (logs1 @ logs2, Ok s')
                           | (logs2, Ok (s', Some e)) \<Rightarrow>
                               (logs1 @ logs2 @ [LogFailedToSaveSingleMetric e], Ok s')))))
      | Some batchReq \<Rightarrow>
          (case ProcessBatchRequest p batchReq of
             (logs1, Panic q) \<Rightarrow> (logs1, Panic q)
           | (logs1, Ok (processedMetrics, Some e)) \<Rightarrow>
               (logs1 @ [LogFailedToProcessBatchMetrics e], Ok s)
           | (logs1, Ok (processedMetrics, None)) \<Rightarrow>
               (case SaveMetrics s processedMetrics of
                  (logs2, Panic q) \<Rightarrow> (logs1 @ logs2, Panic q)
                | (logs2, Ok (s', None)) \<Rightarrow> (logs1 @ logs2, Ok s')
                | (logs2, Ok (s', Some e)) \<Rightarrow>
                    (logs1 @ logs2 @ [LogFailedToSaveBatchMetrics e], Ok s'))))"

text \<open>
  \<open>handleUniStream\<close> on the payloads of the frames it reads, in order, until the
  stream ends (end of stream, a read error or an oversized length end the loop with a
  return). A panic ends the loop at once.
\<close>

fun handleUniStream ::
  "protocol \<Rightarrow> MemoryStorage \<Rightarrow> 8 word list list \<Rightarrow> log_event list \<times> MemoryStorage result"
where
  "handleUniStream p s [] = ([], Ok s)"
| "handleUniStream p s (data # later) =
     (case handle_payload p s data of
        (logs, Panic q) \<Rightarrow> (logs, Panic q)
      | (logs, Ok s') \<Rightarrow>
          (case handleUniStream p s' later of (logs', r) \<Rightarrow> (logs @ logs', r)))"

section \<open>Example values\<close>

definition example_sample :: "string \<Rightarrow> time \<Rightarrow> ProcessedMetric" where
  "example_sample agent t =
     \<lparr>AgentID = agent, Timestamp = t, Name = ''cpu'', Value = 0, Labels = Map.empty,
      Type = ''CPU_USAGE'', RawType = 0, Payload = []\<rparr>"

definition example_store :: "ProcessedMetric list \<Rightarrow> int \<Rightarrow> MemoryStorage" where
  "example_store ms n = \<lparr>metrics = ms, maxSize = n, expireTime = 10\<rparr>"

text \<open>
  A toy decoding that stands for the protobuf one in the examples: the payload \<open>[2]\<close>
  decodes as a batch of two samples, the first with an empty name; \<open>[0]\<close> and \<open>[1]\<close>
  decode only as a single sample, with an empty name and a valid one.
\<close>

definition example_metric :: "string \<Rightarrow> 64 word \<Rightarrow> Metric" where
  "example_metric name ts =
     \<lparr>Metric_Name = name, Metric_Value = 0, Metric_Timestamp = ts, Metric_Labels = Map.empty,
      Metric_Type = 0, Metric_Payload = []\<rparr>"

definition example_batch :: BatchMetricsRequest where
  "example_batch =
     \<lparr>Batch_AgentId = ''a1'', Batch_Timestamp = 2,
      Batch_Metrics = [example_metric '''' 1, example_metric ''cpu'' 2]\<rparr>"

definition example_protocol :: protocol where
  "example_protocol =
     \<lparr>MetricType_CPU_USAGE = 0, MetricType_EBPF_RAW = 5,
      MetricType_String = (\<lambda>t. if t = 0 then ''CPU_USAGE'' else ''OTHER''),
      Unmarshal_BatchMetricsRequest = (\<lambda>data. if data = [2] then Some example_batch else None),
      Unmarshal_Metric =
        (\<lambda>data. if data = [0] then Some (example_metric '''' 1)
                else if data = [1] then Some (example_metric ''cpu'' 2)
                else None)\<rparr>"

section \<open>The expiry sweep\<close>

lemma firstValidIdx_find:
  "firstValidIdx e ms i =
     (case find (\<lambda>m. Timestamp m > e) ms of
        None \<Rightarrow> 0
      | Some x \<Rightarrow> i + int (length (takeWhile (\<lambda>m. \<not> Timestamp m > e) ms)))"
  by (induction ms arbitrary: i) (auto split: option.splits)

lemma firstValidIdx_bounds:
  "0 \<le> firstValidIdx e ms 0 \<and> firstValidIdx e ms 0 \<le> int (length ms)"
  by (simp add: firstValidIdx_find length_takeWhile_le split: option.splits)

lemma firstValidIdx_dropWhile:
  "firstValidIdx e (dropWhile (\<lambda>m. \<not> Timestamp m > e) ms) 0 = 0"
  by (induction ms) auto

lemma firstValidIdx_after_drop:
  "firstValidIdx e (drop (nat (firstValidIdx e ms 0)) ms) 0 = 0"
proof (cases "find (\<lambda>m. Timestamp m > e) ms")
  case None
  then show ?thesis by (simp add: firstValidIdx_find)
next
  case (Some x)
  then have "firstValidIdx e ms 0 = int (length (takeWhile (\<lambda>m. \<not> Timestamp m > e) ms))"
    by (simp add: firstValidIdx_find)
  then have "drop (nat (firstValidIdx e ms 0)) ms = dropWhile (\<lambda>m. \<not> Timestamp m > e) ms"
    by (simp add: dropWhile_eq_drop)
  then show ?thesis by (simp only: firstValidIdx_dropWhile)
qed

text \<open>
  \<open>CleanExpired\<close> never panics: the index it slices at lies within the slice.
\<close>

lemma CleanExpired_eq:
  "CleanExpired now s =
     (if firstValidIdx (now - expireTime s) (metrics s) 0 > 0
      then ([LogCleaned (firstValidIdx (now - expireTime s) (metrics s) 0)],
            Ok (s\<lparr>metrics := drop (nat (firstValidIdx (now - expireTime s) (metrics s) 0)) (metrics s)\<rparr>))
      else ([], Ok s))"
  using firstValidIdx_bounds [of "now - expireTime s" "metrics s"]
  by (simp add: CleanExpired_def slice_from_def Let_def)

text \<open>
  Claim C9: \<open>CleanExpired\<close> is idempotent. For every store and every reading of the
  clock, the call returns a store, and a second call at the same reading, with no write
  in between, returns that same store (and logs nothing).
\<close>

theorem CleanExpired_idempotent:
  "\<exists>s' logs. CleanExpired now s = (logs, Ok s') \<and> CleanExpired now s' = ([], Ok s')"
proof (cases "firstValidIdx (now - expireTime s) (metrics s) 0 > 0")
  case True
  let ?k = "firstValidIdx (now - expireTime s) (metrics s) 0"
  let ?s' = "s\<lparr>metrics := drop (nat ?k) (metrics s)\<rparr>"
  have first: "CleanExpired now s = ([LogCleaned ?k], Ok ?s')"
    using True by (simp add: CleanExpired_eq)
  have "firstValidIdx (now - expireTime ?s') (metrics ?s') 0 = 0"
    by (simp add: firstValidIdx_after_drop)
  then have "CleanExpired now ?s' = ([], Ok ?s')"
    by (simp only: CleanExpired_eq) simp
  with first show ?thesis by blast
next
  case False
  then have "CleanExpired now s = ([], Ok s)"
    by (simp add: CleanExpired_eq)
  then show ?thesis by simp
qed

section \<open>The latest entries\<close>

text \<open>
  Claim C7: for every store and every \<open>n\<close> greater than the number of entries,
  \<open>GetLatestMetrics\<close> returns all entries, in insertion order (the oldest first), with
  a nil error.
\<close>

theorem GetLatestMetrics_returns_all:
  "int (length (metrics s)) < n \<Longrightarrow> GetLatestMetrics s n = Ok (metrics s, None)"
  by (simp add: GetLatestMetrics_def slice_from_def)

theorem GetLatestMetrics_returns_all_witness:
  "int (length (metrics (example_store [example_sample ''a1'' 1000, example_sample ''a1'' 2000] 2))) < 10 \<and>
   GetLatestMetrics (example_store [example_sample ''a1'' 1000, example_sample ''a1'' 2000] 2) 10 =
     Ok ([example_sample ''a1'' 1000, example_sample ''a1'' 2000], None)"
  using GetLatestMetrics_returns_all
    [of "example_store [example_sample ''a1'' 1000, example_sample ''a1'' 2000] 2" 10]
  by (simp add: example_store_def)

section \<open>The filtered queries\<close>

lemma rev_take_Suc:
  "k < length ms \<Longrightarrow> rev (take (Suc k) ms) = ms ! k # rev (take k ms)"
  by (simp add: take_Suc_conv_app_nth)

text \<open>
  The scan from index \<open>i\<close> down appends to \<open>res\<close> the matches among the entries at
  \<open>i, i - 1, ..., 0\<close>, in that order, until \<open>res\<close> holds \<open>limit\<close> entries; it never
  indexes out of range.
\<close>

lemma scan_newest_first_eq:
  "\<lbrakk>- 1 \<le> i; i < int (length ms)\<rbrakk> \<Longrightarrow>
     scan_newest_first match ms limit i res =
       Ok (res @ take (nat limit - length res) (filter match (rev (take (nat (i + 1)) ms))))"
proof (induction match ms limit i res rule: scan_newest_first.induct)
  case (1 match ms limit i res)
  show ?case
  proof (cases "i \<ge> 0 \<and> int (length res) < limit")
    case False
    then have "i = - 1 \<or> nat limit - length res = 0" using "1.prems" by auto
    then show ?thesis using False
      by (subst scan_newest_first.simps) auto
  next
    case True
    then have idx: "index_at ms i = Ok (ms ! nat i)"
      using "1.prems" by (simp add: index_at_def)
    let ?m = "ms ! nat i"
    let ?res' = "if match ?m then res @ [?m] else res"
    have IH: "scan_newest_first match ms limit (i - 1) ?res' =
        Ok (?res' @ take (nat limit - length ?res') (filter match (rev (take (nat (i - 1 + 1)) ms))))"
      using "1.IH" [OF True idx] "1.prems" True by simp
    have step: "scan_newest_first match ms limit i res = scan_newest_first match ms limit (i - 1) ?res'"
      using True idx by (subst scan_newest_first.simps) simp
    have k: "nat (i + 1) = Suc (nat i)" "nat i < length ms" using True "1.prems" by auto
    have "length res < nat limit" using True by auto
    then obtain d where d: "nat limit - length res = Suc d"
      by (cases "nat limit - length res") auto
    then have d': "nat limit - Suc (length res) = d" by simp
    show ?thesis
      unfolding step IH
      using rev_take_Suc [OF k(2)] d d' by (simp add: k(1))
  qed
qed

lemma scan_newest_first_all:
  "scan_newest_first match ms limit (int (length ms) - 1) [] =
     Ok (take (nat limit) (filter match (rev ms)))"
  using scan_newest_first_eq [of "int (length ms) - 1" ms match limit "[]"] by simp

lemma make_slice_eq:
  "make_slice c =
     (if 0 \<le> c \<and> ProcessedMetric_size * c \<le> maxAlloc then Ok []
      else Panic MakeSliceCapOutOfRange)"
  by (auto simp: make_slice_def)

lemma GetMetricsByAgentID_eq:
  "\<lbrakk>0 \<le> limit; ProcessedMetric_size * limit \<le> maxAlloc\<rbrakk> \<Longrightarrow>
     GetMetricsByAgentID s agentID limit =
       Ok (take (nat limit) (filter (\<lambda>m. AgentID m = agentID) (rev (metrics s))), None)"
  by (simp add: GetMetricsByAgentID_def make_slice_eq scan_newest_first_all)

lemma GetMetricsByType_eq:
  "\<lbrakk>0 \<le> limit; ProcessedMetric_size * limit \<le> maxAlloc\<rbrakk> \<Longrightarrow>
     GetMetricsByType s metricType limit =
       Ok (take (nat limit) (filter (\<lambda>m. Type m = metricType) (rev (metrics s))), None)"
  by (simp add: GetMetricsByType_def make_slice_eq scan_newest_first_all)

lemma inclusive_range:
  "((t > start \<or> t = start) \<and> (t < end' \<or> t = end')) = (start \<le> t \<and> t \<le> end')"
  for t :: int
  by auto

lemma GetMetricsByTimeRange_eq:
  "\<lbrakk>0 \<le> limit; ProcessedMetric_size * limit \<le> maxAlloc\<rbrakk> \<Longrightarrow>
     GetMetricsByTimeRange s start end' limit =
       Ok (take (nat limit)
             (filter (\<lambda>m. start \<le> Timestamp m \<and> Timestamp m \<le> end') (rev (metrics s))), None)"
  by (simp only: GetMetricsByTimeRange_def inclusive_range)
     (simp add: make_slice_eq scan_newest_first_all)

text \<open>
  For a positive limit whose result slice the run-time accepts to allocate, each of the
  three filtered queries returns, with a nil error, the first \<open>limit\<close> matches met when
  going through the entries from the most recently inserted to the oldest (all matches
  when there are fewer), in that newest-first order; the time range matches both of its
  bounds.
\<close>

lemma filtered_queries_within_allocation:
  assumes "0 < limit" and "ProcessedMetric_size * limit \<le> maxAlloc"
  shows "GetMetricsByAgentID s agentID limit =
           Ok (take (nat limit) (filter (\<lambda>m. AgentID m = agentID) (rev (metrics s))), None) \<and>
         GetMetricsByType s metricType limit =
           Ok (take (nat limit) (filter (\<lambda>m. Type m = metricType) (rev (metrics s))), None) \<and>
         GetMetricsByTimeRange s start end' limit =
           Ok (take (nat limit)
                 (filter (\<lambda>m. start \<le> Timestamp m \<and> Timestamp m \<le> end') (rev (metrics s))), None)"
  using assms
  by (simp add: GetMetricsByAgentID_eq GetMetricsByType_eq GetMetricsByTimeRange_eq)

lemma filtered_queries_within_allocation_example:
  "(0::int) < 2 \<and> ProcessedMetric_size * 2 \<le> maxAlloc \<and>
   GetMetricsByAgentID
     (example_store [example_sample ''a1'' 1000, example_sample ''a2'' 1500,
        example_sample ''a1'' 2000, example_sample ''a1'' 3000] 5) ''a1'' 2 =
     Ok ([example_sample ''a1'' 3000, example_sample ''a1'' 2000], None) \<and>
   GetMetricsByType
     (example_store [example_sample ''a1'' 1000, example_sample ''a2'' 1500,
        example_sample ''a1'' 2000, example_sample ''a1'' 3000] 5) ''CPU_USAGE'' 2 =
     Ok ([example_sample ''a1'' 3000, example_sample ''a1'' 2000], None) \<and>
   GetMetricsByTimeRange
     (example_store [example_sample ''a1'' 1000, example_sample ''a2'' 1500,
        example_sample ''a1'' 2000, example_sample ''a1'' 3000] 5) 1000 2000 2 =
     Ok ([example_sample ''a1'' 2000, example_sample ''a2'' 1500], None)"
proof -
  have h: "(0::int) < 2" "ProcessedMetric_size * 2 \<le> maxAlloc"
    by (simp_all add: ProcessedMetric_size_def maxAlloc_def)
  show ?thesis
    using h filtered_queries_within_allocation
      [OF h, of "example_store [example_sample ''a1'' 1000, example_sample ''a2'' 1500,
        example_sample ''a1'' 2000, example_sample ''a1'' 3000] 5" "''a1''" "''CPU_USAGE''"
        1000 2000]
    by (simp add: example_store_def example_sample_def)
qed

text \<open>A limit beyond what the run-time accepts to allocate makes each of them panic.\<close>

lemma huge_limit_panics:
  assumes "ProcessedMetric_size * limit > maxAlloc"
  shows "GetMetricsByAgentID s agentID limit = Panic MakeSliceCapOutOfRange"
    and "GetMetricsByType s metricType limit = Panic MakeSliceCapOutOfRange"
    and "GetMetricsByTimeRange s start end' limit = Panic MakeSliceCapOutOfRange"
  using assms
  by (simp_all add: GetMetricsByAgentID_def GetMetricsByType_def GetMetricsByTimeRange_def
      make_slice_def)

text \<open>
  Claim C6: for every store and every positive limit, each of the three filtered queries
  scans from the most recently inserted entry to the oldest and returns at most
  \<open>limit\<close> matches, newest first, the time range matching both of its bounds. Each
  query first allocates its result with \<open>make([]ProcessedMetric, 0, limit)\<close>, the limit
  unchecked: with the positive limit 9223372036854775807 (the largest int) on a store
  of one entry, the allocation is refused and each query panics before it scans.
\<close>

theorem filtered_queries_panic_on_huge_limit:
  "(0::int) < 9223372036854775807 \<and>
   GetMetricsByAgentID (example_store [example_sample ''a1'' 1000] 5) ''a1''
     9223372036854775807 = Panic MakeSliceCapOutOfRange \<and>
   GetMetricsByType (example_store [example_sample ''a1'' 1000] 5) ''CPU_USAGE''
     9223372036854775807 = Panic MakeSliceCapOutOfRange \<and>
   GetMetricsByTimeRange (example_store [example_sample ''a1'' 1000] 5) 0 2000
     9223372036854775807 = Panic MakeSliceCapOutOfRange"
  by (simp add: huge_limit_panics ProcessedMetric_size_def maxAlloc_def)

section \<open>Writes\<close>

lemma length_most_recent: "length (most_recent n xs) = min n (length xs)"
  by (simp add: most_recent_def)

lemma most_recent_all: "length xs \<le> n \<Longrightarrow> most_recent n xs = xs"
  by (simp add: most_recent_def)

lemma most_recent_append: "most_recent n (most_recent n xs @ ys) = most_recent n (xs @ ys)"
  by (cases "length xs \<le> n") (auto simp: most_recent_def add.commute)

text \<open>
  On a store with a non-negative \<open>maxSize\<close> (the only kind \<open>NewMemoryStorage\<close>
  returns), \<open>SaveMetrics\<close> never panics, returns a nil error and leaves the
  \<open>maxSize\<close> most recent entries.
\<close>

lemma SaveMetrics_eq:
  assumes "0 \<le> maxSize s"
  shows "SaveMetrics s new =
    ([LogSaved (int (length new)) (int (length (most_recent (nat (maxSize s)) (metrics s @ new))))],
     Ok (s\<lparr>metrics := most_recent (nat (maxSize s)) (metrics s @ new)\<rparr>, None))"
proof (cases "int (length (metrics s @ new)) > maxSize s")
  case True
  let ?all = "metrics s @ new"
  have "nat (int (length ?all) - maxSize s) = length ?all - nat (maxSize s)"
    using assms by linarith
  moreover have "0 \<le> int (length ?all) - maxSize s"
    and "int (length ?all) - maxSize s \<le> int (length ?all)"
    using assms True by linarith+
  ultimately have "slice_from ?all (int (length ?all) - maxSize s) =
      Ok (most_recent (nat (maxSize s)) ?all)"
    by (simp only: slice_from_def most_recent_def) simp
  with True show ?thesis by (simp add: SaveMetrics_def Let_def)
next
  case False
  then have "most_recent (nat (maxSize s)) (metrics s @ new) = metrics s @ new"
    by (intro most_recent_all) simp
  with False show ?thesis by (simp add: SaveMetrics_def Let_def)
qed

lemma NewMemoryStorage_eq:
  "NewMemoryStorage n e =
     (if n < 0 \<or> ProcessedMetric_size * n > maxAlloc then Panic MakeSliceCapOutOfRange
      else Ok \<lparr>metrics = [], maxSize = n, expireTime = e\<rparr>)"
  by (simp add: NewMemoryStorage_def make_slice_def)

text \<open>
  A store as \<open>NewMemoryStorage\<close> returns it has a non-negative \<open>maxSize\<close> and is
  empty; a \<open>maxSize\<close> that is negative, or too large to allocate, makes the
  constructor panic.
\<close>

lemma NewMemoryStorage_invariant:
  "NewMemoryStorage n e = Ok s \<Longrightarrow> 0 \<le> maxSize s \<and> int (length (metrics s)) \<le> maxSize s"
  by (auto simp: NewMemoryStorage_eq split: if_splits)

lemma SaveMetrics_sequence_eq:
  "\<lbrakk>0 \<le> maxSize s; int (length (metrics s)) \<le> maxSize s\<rbrakk> \<Longrightarrow>
     SaveMetrics_sequence s writes =
       Ok (s\<lparr>metrics := most_recent (nat (maxSize s)) (metrics s @ concat writes)\<rparr>)"
proof (induction writes arbitrary: s)
  case Nil
  then show ?case by (simp add: most_recent_all)
next
  case (Cons new later)
  let ?s' = "s\<lparr>metrics := most_recent (nat (maxSize s)) (metrics s @ new)\<rparr>"
  have "int (length (metrics ?s')) \<le> maxSize ?s'" "0 \<le> maxSize ?s'"
    using Cons.prems by (simp_all add: length_most_recent)
  from Cons.IH [OF this(2) this(1)]
  have "SaveMetrics_sequence ?s' later =
      Ok (s\<lparr>metrics := most_recent (nat (maxSize s)) (metrics s @ new @ concat later)\<rparr>)"
    using most_recent_append [of "nat (maxSize s)" "metrics s @ new" "concat later"] by simp
  then show ?case
    using Cons.prems by (simp add: SaveMetrics_eq)
qed

text \<open>
  Claim C3: on a store within its bound, after each write of every sequence of
  \<open>SaveMetrics\<close> calls the store holds at most \<open>maxSize\<close> entries, and they are the
  \<open>maxSize\<close> most recently inserted of all the entries held at the start or written
  since, in insertion order (all of them while the bound is not exceeded).
\<close>

theorem SaveMetrics_keeps_most_recent:
  assumes "0 \<le> maxSize s" and "int (length (metrics s)) \<le> maxSize s"
  shows "\<forall>k \<le> length writes. \<exists>s'.
           SaveMetrics_sequence s (take k writes) = Ok s' \<and>
           int (length (metrics s')) \<le> maxSize s \<and>
           maxSize s' = maxSize s \<and>
           metrics s' = most_recent (nat (maxSize s)) (metrics s @ concat (take k writes))"
proof (intro allI impI)
  fix k
  let ?s' = "s\<lparr>metrics := most_recent (nat (maxSize s)) (metrics s @ concat (take k writes))\<rparr>"
  have "SaveMetrics_sequence s (take k writes) = Ok ?s'"
    using assms by (rule SaveMetrics_sequence_eq)
  moreover have "int (length (metrics ?s')) \<le> maxSize s"
    using assms(1) by (simp add: length_most_recent)
  ultimately show "\<exists>s'.
           SaveMetrics_sequence s (take k writes) = Ok s' \<and>
           int (length (metrics s')) \<le> maxSize s \<and>
           maxSize s' = maxSize s \<and>
           metrics s' = most_recent (nat (maxSize s)) (metrics s @ concat (take k writes))"
    by simp
qed

theorem SaveMetrics_keeps_most_recent_witness:
  "0 \<le> maxSize (example_store [] 2) \<and>
   int (length (metrics (example_store [] 2))) \<le> maxSize (example_store [] 2) \<and>
   SaveMetrics_sequence (example_store [] 2)
     [[example_sample ''a1'' 0, example_sample ''a1'' 1000], [example_sample ''a1'' 2000]] =
     Ok (example_store [example_sample ''a1'' 1000, example_sample ''a1'' 2000] 2) \<and>
   SaveMetrics_sequence (example_store [] 2)
     [[example_sample ''a1'' 0, example_sample ''a1'' 1000, example_sample ''a1'' 2000]] =
     Ok (example_store [example_sample ''a1'' 1000, example_sample ''a1'' 2000] 2)"
  using SaveMetrics_keeps_most_recent [of "example_store [] 2"
      "[[example_sample ''a1'' 0, example_sample ''a1'' 1000], [example_sample ''a1'' 2000]]"]
  by (simp add: example_store_def SaveMetrics_def slice_from_def)

section \<open>Validation and normalisation\<close>

lemma validateMetric_None_iff:
  "validateMetric p metric = None \<longleftrightarrow>
     Metric_Name metric \<noteq> '''' \<and> 0 < sint (Metric_Timestamp metric) \<and>
     MetricType_CPU_USAGE p \<le> Metric_Type metric \<and> Metric_Type metric \<le> MetricType_EBPF_RAW p"
  by (auto simp: validateMetric_def)

lemma ProcessSingleMetric_invalid:
  "validateMetric p metric = Some e \<Longrightarrow> ProcessSingleMetric p agentID metric = (None, Some e)"
  by (simp add: ProcessSingleMetric_def)

lemma ProcessSingleMetric_valid:
  "validateMetric p metric = None \<Longrightarrow>
     ProcessSingleMetric p agentID metric =
       (Some \<lparr>AgentID = agentID, Timestamp = sint (Metric_Timestamp metric * 1000000),
              Name = Metric_Name metric, Value = Metric_Value metric,
              Labels = Metric_Labels metric,
              Type = MetricType_String p (Metric_Type metric), RawType = Metric_Type metric,
              Payload = Metric_Payload metric\<rparr>, None)"
  by (simp add: ProcessSingleMetric_def)

text \<open>
  The int64 product does not wrap for a positive timestamp of at most 9223372036854
  milliseconds; the normalised timestamp is then that many milliseconds after the epoch.
\<close>

lemma timestamp_in_range:
  fixes ts :: "64 word"
  assumes "0 < sint ts" and "sint ts \<le> 9223372036854"
  shows "sint (ts * 1000000) = sint ts * 1000000"
proof -
  have "sint (ts * 1000000) = signed_take_bit 63 (sint ts * sint (1000000 :: 64 word))"
    by (simp add: sint_word_ariths)
  also have "sint (1000000 :: 64 word) = 1000000" by simp
  also have "signed_take_bit 63 (sint ts * 1000000) = sint ts * 1000000"
    using assms by (intro signed_take_bit_int_eq_self) simp_all
  finally show ?thesis .
qed

lemma ProcessSingleMetric_timestamp:
  assumes "validateMetric p metric = None" and "sint (Metric_Timestamp metric) \<le> 9223372036854"
  shows "\<exists>pm. ProcessSingleMetric p agentID metric = (Some pm, None) \<and>
           Timestamp pm = sint (Metric_Timestamp metric) * 1000000 \<and>
           Type pm = MetricType_String p (Metric_Type metric)"
  using assms timestamp_in_range [of "Metric_Timestamp metric"]
  by (simp add: ProcessSingleMetric_valid validateMetric_None_iff)

lemma ProcessSingleMetric_AgentID:
  "ProcessSingleMetric p agentID metric = (Some pm, err) \<Longrightarrow> AgentID pm = agentID"
  by (auto simp: ProcessSingleMetric_def split: option.splits)

section \<open>Batches\<close>

lemma process_metrics_eq:
  "process_metrics p agentID ms processedMetrics logs =
     (logs @ List.map_filter
        (\<lambda>m. map_option (\<lambda>e. LogFailedToProcessMetric (Error e)) (validateMetric p m)) ms,
      Ok (processedMetrics @
          List.map_filter (\<lambda>m. fst (ProcessSingleMetric p agentID m)) ms))"
proof (induction ms arbitrary: processedMetrics logs)
  case Nil
  then show ?case by simp
next
  case (Cons m ms)
  show ?case
  proof (cases "validateMetric p m")
    case None
    then show ?thesis
      by (simp add: Cons.IH ProcessSingleMetric_valid)
  next
    case (Some e)
    then show ?thesis
      by (simp add: Cons.IH ProcessSingleMetric_invalid)
  qed
qed

lemma ProcessBatchRequest_eq:
  "ProcessBatchRequest p req =
     (List.map_filter
        (\<lambda>m. map_option (\<lambda>e. LogFailedToProcessMetric (Error e)) (validateMetric p m))
        (Batch_Metrics req),
      Ok (List.map_filter (\<lambda>m. fst (ProcessSingleMetric p (Batch_AgentId req) m))
            (Batch_Metrics req), None))"
  by (simp add: ProcessBatchRequest_def process_metrics_eq)

text \<open>
  Claim C8: validation checks the name, then the timestamp, then the type, and a valid
  sample is normalised with its timestamp read as milliseconds since the epoch. The
  code computes the timestamp with an int64 product, which wraps: for the valid sample
  with timestamp 9223372036855 (milliseconds) the stored instant is
  -9223372036854551616 nanoseconds, before the epoch, not 9223372036855000000.
\<close>

theorem ProcessSingleMetric_timestamp_wraps:
  "validateMetric example_protocol (example_metric ''cpu'' 9223372036855) = None \<and>
   map_option Timestamp
     (fst (ProcessSingleMetric example_protocol '''' (example_metric ''cpu'' 9223372036855))) =
     Some (- 9223372036854551616) \<and>
   sint (9223372036855 :: 64 word) * 1000000 = 9223372036855000000"
  by (simp add: ProcessSingleMetric_def validateMetric_def example_protocol_def
      example_metric_def)

section \<open>Single samples\<close>

lemma handle_payload_invalid_single:
  assumes "Unmarshal_BatchMetricsRequest p data = None"
    and "Unmarshal_Metric p data = Some metric"
    and "validateMetric p metric = Some e"
  shows "handle_payload p s data =
    ([LogFailedToSaveSingleMetric (Error e)], Panic NilPointerDereference)"
  using assms by (simp add: handle_payload_def ProcessSingleMetric_invalid)

lemma handle_payload_valid_single:
  assumes "Unmarshal_BatchMetricsRequest p data = None"
    and "Unmarshal_Metric p data = Some metric"
    and "ProcessSingleMetric p '''' metric = (Some pm, None)"
    and "0 \<le> maxSize s"
  shows "handle_payload p s data =
    ([LogSaved 1 (int (length (most_recent (nat (maxSize s)) (metrics s @ [pm]))))],
     Ok (s\<lparr>metrics := most_recent (nat (maxSize s)) (metrics s @ [pm])\<rparr>))"
  using assms by (simp add: handle_payload_def SaveMetrics_eq)

text \<open>
  Claim C1: a single-sample frame that fails validation is reported, nothing is written
  and the later frames of the stream are still processed. The code logs the error and
  then dereferences the nil result: the frame \<open>[0]\<close> (a sample with an empty name) ends
  in a nil-pointer panic, and the valid frame \<open>[1]\<close> after it is never processed.
\<close>

theorem invalid_single_metric_panics:
  "handle_payload example_protocol (example_store [] 5) [0] =
     ([LogFailedToSaveSingleMetric ''metric name is empty''], Panic NilPointerDereference) \<and>
   handleUniStream example_protocol (example_store [] 5) [[0], [1]] =
     ([LogFailedToSaveSingleMetric ''metric name is empty''], Panic NilPointerDereference)"
proof -
  have "validateMetric example_protocol (example_metric '''' 1) = Some ErrEmptyMetricName"
    by (simp add: validateMetric_def example_metric_def)
  then have "handle_payload example_protocol (example_store [] 5) [0] =
      ([LogFailedToSaveSingleMetric (Error ErrEmptyMetricName)], Panic NilPointerDereference)"
    by (intro handle_payload_invalid_single) (simp_all add: example_protocol_def)
  then show ?thesis by simp
qed

lemma GetMetricsByAgentID_members:
  assumes "GetMetricsByAgentID s agentID limit = Ok (res, err)"
  shows "\<forall>m \<in> set res. AgentID m = agentID"
proof (cases "0 \<le> limit \<and> ProcessedMetric_size * limit \<le> maxAlloc")
  case True
  with assms have "res = take (nat limit) (filter (\<lambda>m. AgentID m = agentID) (rev (metrics s)))"
    by (simp add: GetMetricsByAgentID_eq)
  then show ?thesis by (auto dest: in_set_takeD)
next
  case False
  with assms show ?thesis by (simp add: GetMetricsByAgentID_def make_slice_eq)
qed

text \<open>
  Claim C10: a frame that decodes only as a single sample, and whose sample is valid, is
  normalised with the empty agent identifier and written to the store (which keeps its
  \<open>maxSize\<close> most recent entries); no \<open>GetMetricsByAgentID\<close> query for a non-empty
  agent identifier returns that sample.
\<close>

theorem single_metric_stored_with_empty_agent:
  assumes "Unmarshal_BatchMetricsRequest p data = None"
    and "Unmarshal_Metric p data = Some metric"
    and "validateMetric p metric = None"
    and "0 \<le> maxSize s"
  shows "\<exists>pm logs s'.
           ProcessSingleMetric p '''' metric = (Some pm, None) \<and> AgentID pm = '''' \<and>
           handle_payload p s data = (logs, Ok s') \<and>
           metrics s' = most_recent (nat (maxSize s)) (metrics s @ [pm]) \<and>
           (\<forall>s'' agentID limit res err.
              agentID \<noteq> '''' \<longrightarrow> GetMetricsByAgentID s'' agentID limit = Ok (res, err) \<longrightarrow>
              pm \<notin> set res)"
proof -
  from assms(3) obtain pm where pm: "ProcessSingleMetric p '''' metric = (Some pm, None)"
    by (simp add: ProcessSingleMetric_valid)
  then have agent: "AgentID pm = ''''" by (rule ProcessSingleMetric_AgentID)
  let ?s' = "s\<lparr>metrics := most_recent (nat (maxSize s)) (metrics s @ [pm])\<rparr>"
  have "handle_payload p s data =
      ([LogSaved 1 (int (length (most_recent (nat (maxSize s)) (metrics s @ [pm]))))], Ok ?s')"
    using assms(1,2) pm assms(4) by (rule handle_payload_valid_single)
  moreover have "\<forall>s'' agentID limit res err.
      agentID \<noteq> '''' \<longrightarrow> GetMetricsByAgentID s'' agentID limit = Ok (res, err) \<longrightarrow>
      pm \<notin> set res"
  proof (intro allI impI)
    fix s'' agentID limit res err
    assume other: "agentID \<noteq> ''''"
      and query: "GetMetricsByAgentID s'' agentID limit = Ok (res, err)"
    from GetMetricsByAgentID_members [OF query]
    have "\<forall>m \<in> set res. AgentID m = agentID" .
    with agent other show "pm \<notin> set res" by auto
  qed
  ultimately show ?thesis using pm agent by auto
qed

theorem single_metric_stored_with_empty_agent_witness:
  "Unmarshal_BatchMetricsRequest example_protocol [1] = None \<and>
   Unmarshal_Metric example_protocol [1] = Some (example_metric ''cpu'' 2) \<and>
   validateMetric example_protocol (example_metric ''cpu'' 2) = None \<and>
   0 \<le> maxSize (example_store [] 5) \<and>
   handle_payload example_protocol (example_store [] 5) [1] =
     ([LogSaved 1 1], Ok (example_store [example_sample '''' 2000000] 5)) \<and>
   GetMetricsByAgentID (example_store [example_sample '''' 2000000] 5) '''' 10 =
     Ok ([example_sample '''' 2000000], None) \<and>
   GetMetricsByAgentID (example_store [example_sample '''' 2000000] 5) ''a1'' 10 = Ok ([], None)"
proof -
  have h: "Unmarshal_BatchMetricsRequest example_protocol [1] = None"
    "Unmarshal_Metric example_protocol [1] = Some (example_metric ''cpu'' 2)"
    "validateMetric example_protocol (example_metric ''cpu'' 2) = None"
    "0 \<le> maxSize (example_store [] 5)"
    by (simp_all add: example_protocol_def validateMetric_def example_metric_def
        example_store_def)
  have pm: "ProcessSingleMetric example_protocol '''' (example_metric ''cpu'' 2) =
      (Some (example_sample '''' 2000000), None)"
    by (simp add: ProcessSingleMetric_def validateMetric_def example_protocol_def
        example_metric_def example_sample_def)
  from single_metric_stored_with_empty_agent [OF h]
  obtain logs s' where
    "handle_payload example_protocol (example_store [] 5) [1] = (logs, Ok s')"
    "metrics s' = most_recent (nat (maxSize (example_store [] 5)))
       (metrics (example_store [] 5) @ [example_sample '''' 2000000])"
    using pm by auto
  moreover have "handle_payload example_protocol (example_store [] 5) [1] =
      ([LogSaved 1 1], Ok (example_store [example_sample '''' 2000000] 5))"
    using handle_payload_valid_single [OF h(1,2) pm h(4)]
    by (simp add: example_store_def most_recent_def)
  moreover have "GetMetricsByAgentID (example_store [example_sample '''' 2000000] 5) '''' 10 =
      Ok ([example_sample '''' 2000000], None)"
    "GetMetricsByAgentID (example_store [example_sample '''' 2000000] 5) ''a1'' 10 = Ok ([], None)"
    by (simp_all add: GetMetricsByAgentID_eq example_store_def example_sample_def
        ProcessedMetric_size_def maxAlloc_def)
  ultimately show ?thesis using h by simp
qed

lemma handle_payload_batch:
  assumes "Unmarshal_BatchMetricsRequest p data = Some req" and "0 \<le> maxSize s"
  shows "handle_payload p s data =
    (List.map_filter
       (\<lambda>m. map_option (\<lambda>e. LogFailedToProcessMetric (Error e)) (validateMetric p m))
       (Batch_Metrics req) @
     [LogSaved
        (int (length (List.map_filter (\<lambda>m. fst (ProcessSingleMetric p (Batch_AgentId req) m))
           (Batch_Metrics req))))
        (int (length (most_recent (nat (maxSize s))
           (metrics s @ List.map_filter (\<lambda>m. fst (ProcessSingleMetric p (Batch_AgentId req) m))
              (Batch_Metrics req)))))],
     Ok (s\<lparr>metrics := most_recent (nat (maxSize s))
           (metrics s @ List.map_filter (\<lambda>m. fst (ProcessSingleMetric p (Batch_AgentId req) m))
              (Batch_Metrics req))\<rparr>))"
  using assms by (simp add: handle_payload_def ProcessBatchRequest_eq SaveMetrics_eq)

lemma empty_name_rejected:
  "Metric_Name bad = '''' \<Longrightarrow> ProcessSingleMetric p agentID bad = (None, Some ErrEmptyMetricName)"
  by (simp add: ProcessSingleMetric_def validateMetric_def)

text \<open>
  Claim C5: each entry of a batch goes through \<open>ProcessSingleMetric\<close> on its own. The
  frame is handled without a panic; the samples written are those returned for the
  entries, in order, the entries for which an error is returned being left out, one
  line being logged for each of them (followed by the line of \<open>SaveMetrics\<close>). In
  particular, for a batch of one entry with an empty name and one valid entry, in
  either order, only the valid entry's sample is written: on an empty store with room
  for it, the store then holds exactly that sample.
\<close>

theorem batch_entries_validated_independently:
  assumes "Unmarshal_BatchMetricsRequest p data = Some req" and "0 \<le> maxSize s"
  shows "\<exists>logs s'.
     handle_payload p s data = (logs, Ok s') \<and>
     metrics s' = most_recent (nat (maxSize s))
       (metrics s @ List.map_filter (\<lambda>m. fst (ProcessSingleMetric p (Batch_AgentId req) m))
          (Batch_Metrics req)) \<and>
     butlast logs = List.map_filter
       (\<lambda>m. map_option (\<lambda>e. LogFailedToProcessMetric (Error e)) (validateMetric p m))
       (Batch_Metrics req) \<and>
     (\<forall>bad good.
        Metric_Name bad = '''' \<longrightarrow> validateMetric p good = None \<longrightarrow>
        Batch_Metrics req = [bad, good] \<or> Batch_Metrics req = [good, bad] \<longrightarrow>
        (\<exists>pm. ProcessSingleMetric p (Batch_AgentId req) good = (Some pm, None) \<and>
           metrics s' = most_recent (nat (maxSize s)) (metrics s @ [pm]) \<and>
           butlast logs = [LogFailedToProcessMetric ''metric name is empty''] \<and>
           (metrics s = [] \<longrightarrow> 1 \<le> maxSize s \<longrightarrow> metrics s' = [pm])))"
proof -
  let ?valid = "List.map_filter (\<lambda>m. fst (ProcessSingleMetric p (Batch_AgentId req) m))
      (Batch_Metrics req)"
  let ?failed = "List.map_filter
      (\<lambda>m. map_option (\<lambda>e. LogFailedToProcessMetric (Error e)) (validateMetric p m))
      (Batch_Metrics req)"
  let ?s' = "s\<lparr>metrics := most_recent (nat (maxSize s)) (metrics s @ ?valid)\<rparr>"
  let ?logs = "?failed @
      [LogSaved (int (length ?valid)) (int (length (most_recent (nat (maxSize s)) (metrics s @ ?valid))))]"
  have run: "handle_payload p s data = (?logs, Ok ?s')"
    using assms by (rule handle_payload_batch)
  have scenario: "\<exists>pm. ProcessSingleMetric p (Batch_AgentId req) good = (Some pm, None) \<and>
           metrics ?s' = most_recent (nat (maxSize s)) (metrics s @ [pm]) \<and>
           butlast ?logs = [LogFailedToProcessMetric ''metric name is empty''] \<and>
           (metrics s = [] \<longrightarrow> 1 \<le> maxSize s \<longrightarrow> metrics ?s' = [pm])"
    if bad: "Metric_Name bad = ''''" and good: "validateMetric p good = None"
      and two: "Batch_Metrics req = [bad, good] \<or> Batch_Metrics req = [good, bad]"
    for bad good
  proof -
    from good obtain pm where pm: "ProcessSingleMetric p (Batch_AgentId req) good = (Some pm, None)"
      by (simp add: ProcessSingleMetric_valid)
    have rejected: "ProcessSingleMetric p (Batch_AgentId req) bad = (None, Some ErrEmptyMetricName)"
      "validateMetric p bad = Some ErrEmptyMetricName"
      using bad by (simp_all add: empty_name_rejected validateMetric_def)
    have "?valid = [pm]" "?failed = [LogFailedToProcessMetric ''metric name is empty'']"
      using two pm rejected good by auto
    then show ?thesis using pm by (auto simp: most_recent_def)
  qed
  show ?thesis
    by (intro exI [of _ ?logs] exI [of _ ?s'] conjI allI impI run scenario) simp_all
qed

theorem batch_entries_validated_independently_witness:
  "Unmarshal_BatchMetricsRequest example_protocol [2] = Some example_batch \<and>
   0 \<le> maxSize (example_store [] 5) \<and>
   Batch_Metrics example_batch = [example_metric '''' 1, example_metric ''cpu'' 2] \<and>
   Metric_Name (example_metric '''' 1) = '''' \<and>
   validateMetric example_protocol (example_metric ''cpu'' 2) = None \<and>
   handle_payload example_protocol (example_store [] 5) [2] =
     ([LogFailedToProcessMetric ''metric name is empty'', LogSaved 1 1],
      Ok (example_store [example_sample ''a1'' 2000000] 5))"
proof -
  have h: "Unmarshal_BatchMetricsRequest example_protocol [2] = Some example_batch"
    "0 \<le> maxSize (example_store [] 5)"
    by (simp_all add: example_protocol_def example_store_def)
  have facts: "Batch_Metrics example_batch = [example_metric '''' 1, example_metric ''cpu'' 2]"
    "Metric_Name (example_metric '''' 1) = ''''"
    "validateMetric example_protocol (example_metric ''cpu'' 2) = None"
    by (simp_all add: example_batch_def example_metric_def validateMetric_def
        example_protocol_def)
  have pm: "ProcessSingleMetric example_protocol (Batch_AgentId example_batch)
      (example_metric ''cpu'' 2) = (Some (example_sample ''a1'' 2000000), None)"
    by (simp add: ProcessSingleMetric_def validateMetric_def example_protocol_def
        example_metric_def example_sample_def example_batch_def)
  from batch_entries_validated_independently [OF h]
  obtain logs s' where run: "handle_payload example_protocol (example_store [] 5) [2] = (logs, Ok s')"
    and stored: "metrics s' = most_recent (nat (maxSize (example_store [] 5)))
       (metrics (example_store [] 5) @
        List.map_filter (\<lambda>m. fst (ProcessSingleMetric example_protocol (Batch_AgentId example_batch) m))
          (Batch_Metrics example_batch))"
    by blast
  have "handle_payload example_protocol (example_store [] 5) [2] =
     ([LogFailedToProcessMetric ''metric name is empty'', LogSaved 1 1],
      Ok (example_store [example_sample ''a1'' 2000000] 5))"
    using handle_payload_batch [OF h] facts pm
    by (simp add: example_store_def most_recent_def ProcessSingleMetric_def validateMetric_def
        example_metric_def)
  with h facts run show ?thesis by simp
qed

section \<open>Sweeping a store with no fresh entry\<close>

lemma firstValidIdx_none_fresh:
  "\<forall>m \<in> set ms. Timestamp m \<le> e \<Longrightarrow> firstValidIdx e ms i = 0"
  by (induction ms arbitrary: i) auto

lemma CleanExpired_none_fresh:
  "\<forall>m \<in> set (metrics s). Timestamp m \<le> now - expireTime s \<Longrightarrow> CleanExpired now s = ([], Ok s)"
  by (simp add: CleanExpired_eq firstValidIdx_none_fresh)

text \<open>
  Claim C2: when every entry is older than \<open>now - expireTime\<close>, one sweep removes every
  entry. The code leaves \<open>firstValidIdx\<close> at 0 when it finds no fresh entry, and then
  removes nothing: at time 100 with \<open>expireTime = 10\<close>, a store of two entries with
  timestamps 1 and 2 is returned as it was.
\<close>

theorem CleanExpired_all_expired_removes_nothing:
  "CleanExpired 100 (example_store [example_sample ''a1'' 1, example_sample ''a1'' 2] 5) =
     ([], Ok (example_store [example_sample ''a1'' 1, example_sample ''a1'' 2] 5)) \<and>
   expireTime (example_store [example_sample ''a1'' 1, example_sample ''a1'' 2] 5) = 10 \<and>
   Timestamp (example_sample ''a1'' 1) < 100 - 10 \<and> Timestamp (example_sample ''a1'' 2) < 100 - 10"
  by (simp add: CleanExpired_eq example_store_def example_sample_def)

section \<open>Totality of the store operations\<close>

text \<open>
  On a store with a non-negative \<open>maxSize\<close>, the write and the sweep always return;
  \<open>GetLatestMetrics\<close> returns a result and a nil error for every non-negative limit,
  and so do the three filtered queries when the run-time accepts to allocate \<open>limit\<close>
  entries.
\<close>

lemma store_operations_return:
  assumes "0 \<le> maxSize s" and "0 \<le> limit" and "ProcessedMetric_size * limit \<le> maxAlloc"
  shows "(\<exists>logs s'. SaveMetrics s new = (logs, Ok (s', None))) \<and>
         (\<exists>logs s'. CleanExpired now s = (logs, Ok s')) \<and>
         (\<exists>res. GetMetricsByAgentID s agentID limit = Ok (res, None)) \<and>
         (\<exists>res. GetMetricsByType s metricType limit = Ok (res, None)) \<and>
         (\<exists>res. GetLatestMetrics s limit = Ok (res, None)) \<and>
         (\<exists>res. GetMetricsByTimeRange s start end' limit = Ok (res, None))"
proof -
  have "\<exists>res. GetLatestMetrics s limit = Ok (res, None)"
    using assms(2) by (simp add: GetLatestMetrics_def slice_from_def)
  moreover have "\<exists>logs s'. CleanExpired now s = (logs, Ok s')"
    by (simp add: CleanExpired_eq)
  ultimately show ?thesis
    using assms
    by (simp add: SaveMetrics_eq GetMetricsByAgentID_eq GetMetricsByType_eq
        GetMetricsByTimeRange_eq)
qed

lemma GetLatestMetrics_returns:
  "0 \<le> limit \<Longrightarrow> \<exists>res. GetLatestMetrics s limit = Ok (res, None)"
  by (simp add: GetLatestMetrics_def slice_from_def)

text \<open>A negative limit makes every query panic.\<close>

lemma negative_limit_panics:
  assumes "limit < 0"
  shows "GetLatestMetrics s limit = Panic SliceBoundsOutOfRange"
    and "GetMetricsByAgentID s agentID limit = Panic MakeSliceCapOutOfRange"
    and "GetMetricsByType s metricType limit = Panic MakeSliceCapOutOfRange"
    and "GetMetricsByTimeRange s start end' limit = Panic MakeSliceCapOutOfRange"
  using assms
  by (simp_all add: GetLatestMetrics_def slice_from_def GetMetricsByAgentID_def
      GetMetricsByType_def GetMetricsByTimeRange_def make_slice_def)

text \<open>
  Claim C4: every store operation returns without failing, for every store and every
  input, negative limits included. The queries do not guard against a negative limit:
  with limit -1 on the empty store, \<open>GetLatestMetrics\<close> slices at index 1 of an empty
  slice and the three filtered queries call \<open>make\<close> with capacity -1; each panics.
\<close>

theorem queries_panic_on_negative_limit:
  "GetLatestMetrics (example_store [] 5) (- 1) = Panic SliceBoundsOutOfRange \<and>
   GetMetricsByAgentID (example_store [] 5) ''a1'' (- 1) = Panic MakeSliceCapOutOfRange \<and>
   GetMetricsByType (example_store [] 5) ''CPU_USAGE'' (- 1) = Panic MakeSliceCapOutOfRange \<and>
   GetMetricsByTimeRange (example_store [] 5) 0 100 (- 1) = Panic MakeSliceCapOutOfRange"
  by (simp add: negative_limit_panics)

end
